theory Spec2Isabelle
  imports Complex_Main
begin

section \<open>Python values\<close>

text \<open>
  The exceptions that the two functions of \<^verbatim>\<open>hyperparameter_utils.py\<close> can raise by
  themselves: a subscript on a dict with a missing key, \<^verbatim>\<open>random.choice\<close> on an empty
  sequence, and a float division by zero. ValueError is what a constructor of the
  framework raises when it refuses an argument: \<^verbatim>\<open>DataLoader\<close> on a batch size that is
  not a positive int or on an empty dataset to shuffle, \<^verbatim>\<open>Adam\<close> on a negative learning
  rate.
\<close>

datatype py_error = KeyError string | IndexError | ZeroDivisionError | ValueError

text \<open>
  A Python float is an IEEE 754 double: a finite value (always a rational number), one of
  the two infinities, or NaN. Negative zero is identified with zero, as \<^verbatim>\<open>==\<close> and
  \<^verbatim>\<open><\<close> do.
\<close>

datatype pyfloat = Fin rat | PInf | NInf | NaN

text \<open>The comparison \<^verbatim>\<open>a < b\<close> of two floats: false as soon as one side is NaN.\<close>

fun float_lt :: "pyfloat \<Rightarrow> pyfloat \<Rightarrow> bool" where
  "float_lt NaN b = False"
| "float_lt a NaN = False"
| "float_lt (Fin a) (Fin b) = (a < b)"
| "float_lt (Fin a) PInf = True"
| "float_lt (Fin a) NInf = False"
| "float_lt PInf b = False"
| "float_lt NInf NInf = False"
| "float_lt NInf b = True"

text \<open>The comparison \<^verbatim>\<open>a <= b\<close>.\<close>

fun float_le :: "pyfloat \<Rightarrow> pyfloat \<Rightarrow> bool" where
  "float_le NaN b = False"
| "float_le a NaN = False"
| "float_le (Fin a) (Fin b) = (a \<le> b)"
| "float_le (Fin a) PInf = True"
| "float_le (Fin a) NInf = False"
| "float_le PInf PInf = True"
| "float_le PInf b = False"
| "float_le NInf b = True"

fun is_finite :: "pyfloat \<Rightarrow> bool" where
  "is_finite (Fin a) = True"
| "is_finite a = False"

fun is_nan :: "pyfloat \<Rightarrow> bool" where
  "is_nan NaN = True"
| "is_nan a = False"

text \<open>
  Float addition \<^verbatim>\<open>a + b\<close>. The exact sum of two finite values is rounded to a double
  (or overflows to an infinity); the rounding function \<open>rnd\<close> is a parameter, so nothing
  below depends on how a double is rounded.
\<close>

fun float_add :: "(rat \<Rightarrow> pyfloat) \<Rightarrow> pyfloat \<Rightarrow> pyfloat \<Rightarrow> pyfloat" where
  "float_add rnd NaN b = NaN"
| "float_add rnd a NaN = NaN"
| "float_add rnd (Fin a) (Fin b) = rnd (a + b)"
| "float_add rnd PInf NInf = NaN"
| "float_add rnd NInf PInf = NaN"
| "float_add rnd PInf b = PInf"
| "float_add rnd NInf b = NInf"
| "float_add rnd (Fin a) b = b"

text \<open>
  True division \<^verbatim>\<open>a / n\<close> of a float by the result of \<^verbatim>\<open>len\<close>, a non-negative int:
  Python raises ZeroDivisionError when the divisor is zero, also for a float dividend.
\<close>

fun float_truediv :: "(rat \<Rightarrow> pyfloat) \<Rightarrow> pyfloat \<Rightarrow> nat \<Rightarrow> py_error + pyfloat" where
  "float_truediv rnd a 0 = Inl ZeroDivisionError"
| "float_truediv rnd (Fin a) (Suc n) = Inr (rnd (a / of_nat (Suc n)))"
| "float_truediv rnd a (Suc n) = Inr a"

text \<open>
  The values that occur in a parameter space: ints (layer widths, batch sizes), floats
  (rates) and lists (one \<^verbatim>\<open>hidden_layers\<close> candidate is a list of ints).
\<close>

datatype pyval = VInt int | VFloat pyfloat | VList "pyval list"

text \<open>
  A dict with string keys is a map. \<^verbatim>\<open>d[k]\<close> raises KeyError when \<open>k\<close> is missing.
\<close>

type_synonym 'v pydict = "string \<rightharpoonup> 'v"

definition subscript :: "'v pydict \<Rightarrow> string \<Rightarrow> py_error + 'v" where
  "subscript d k = (case d k of None \<Rightarrow> Inl (KeyError k) | Some v \<Rightarrow> Inr v)"

type_synonym param_space = "pyval list pydict"
type_synonym config = "pyval pydict"

section \<open>The random source\<close>

text \<open>
  \<^verbatim>\<open>random.choice\<close> reads the process-wide generator of the \<^verbatim>\<open>random\<close> module. Its
  state is modelled by the sequence of raw numbers it is going to deliver; every sequence
  is a possible state. \<open>randbelow n\<close> is the library's \<^verbatim>\<open>_randbelow(n)\<close> for \<open>n > 0\<close>:
  an index below \<open>n\<close>, and the generator advanced.
\<close>

type_synonym rng = "nat \<Rightarrow> nat"

definition randbelow :: "nat \<Rightarrow> rng \<Rightarrow> nat \<times> rng" where
  "randbelow n r = (r 0 mod n, \<lambda>i. r (Suc i))"

text \<open>
  \<^verbatim>\<open>random.choice(seq)\<close>: IndexError on an empty sequence, otherwise
  \<^verbatim>\<open>seq[self._randbelow(len(seq))]\<close>.
\<close>

definition choice :: "'a list \<Rightarrow> rng \<Rightarrow> (py_error + 'a) \<times> rng" where
  "choice seq r =
     (if seq = [] then (Inl IndexError, r)
      else (let (i, r') = randbelow (length seq) r in (Inr (seq ! i), r')))"

section \<open>sample_hyperparameters\<close>

text \<open>The expression \<^verbatim>\<open>random.choice(param_space[k])\<close>: the subscript first, then the draw.\<close>

definition choice_at :: "param_space \<Rightarrow> string \<Rightarrow> rng \<Rightarrow> (py_error + pyval) \<times> rng" where
  "choice_at param_space k r =
     (case subscript param_space k of
        Inl e \<Rightarrow> (Inl e, r)
      | Inr seq \<Rightarrow> choice seq r)"

text \<open>
  The dict display of lines 15 to 20 evaluates its four values from top to bottom; the
  first exception ends the call. The function returns its outcome together with the dict
  that \<^verbatim>\<open>param_space\<close> refers to as it is after the call, and the generator as it is
  after the call.
\<close>

definition sample_hyperparameters ::
  "param_space \<Rightarrow> rng \<Rightarrow> (py_error + config) \<times> param_space \<times> rng" where
  "sample_hyperparameters param_space r0 =
     (case choice_at param_space ''hidden_layers'' r0 of
        (Inl e, r) \<Rightarrow> (Inl e, param_space, r)
      | (Inr hidden_layers, r1) \<Rightarrow>
     (case choice_at param_space ''dropout_rate'' r1 of
        (Inl e, r) \<Rightarrow> (Inl e, param_space, r)
      | (Inr dropout_rate, r2) \<Rightarrow>
     (case choice_at param_space ''learning_rate'' r2 of
        (Inl e, r) \<Rightarrow> (Inl e, param_space, r)
      | (Inr learning_rate, r3) \<Rightarrow>
     (case choice_at param_space ''batch_size'' r3 of
        (Inl e, r) \<Rightarrow> (Inl e, param_space, r)
      | (Inr batch_size, r4) \<Rightarrow>
          (Inr [''hidden_layers'' \<mapsto> hidden_layers,
                ''dropout_rate'' \<mapsto> dropout_rate,
                ''learning_rate'' \<mapsto> learning_rate,
                ''batch_size'' \<mapsto> batch_size],
           param_space, r4)))))"

text \<open>The four keys, in the order in which the function reads them.\<close>

definition required_keys :: "string list" where
  "required_keys = [''hidden_layers'', ''dropout_rate'', ''learning_rate'', ''batch_size'']"

text \<open>
  The parameter space of the single-candidate scenario,
  \<^verbatim>\<open>{hidden_layers:[[16]], dropout_rate:[0.0], learning_rate:[0.01], batch_size:[4]}\<close>,
  and the configuration expected from it. The literal \<^verbatim>\<open>0.01\<close> denotes the double
  nearest to one hundredth, \<open>5764607523034235 / 2^59\<close>.
\<close>

definition lit_0_01 :: pyfloat where
  "lit_0_01 = Fin (5764607523034235 / 576460752303423488)"

definition single_space :: param_space where
  "single_space =
     [''hidden_layers'' \<mapsto> [VList [VInt 16]],
      ''dropout_rate'' \<mapsto> [VFloat (Fin 0)],
      ''learning_rate'' \<mapsto> [VFloat lit_0_01],
      ''batch_size'' \<mapsto> [VInt 4]]"

definition single_config :: config where
  "single_config =
     [''hidden_layers'' \<mapsto> VList [VInt 16],
      ''dropout_rate'' \<mapsto> VFloat (Fin 0),
      ''learning_rate'' \<mapsto> VFloat lit_0_01,
      ''batch_size'' \<mapsto> VInt 4]"

section \<open>The framework\<close>

text \<open>
  The model, the optimizer, the loss tensors, the data loaders and the framework's own
  random generator (dropout, shuffling) belong to PyTorch. Everything mutable there is one
  value of type \<open>'w\<close>, the world, and each operation of the framework that the code calls
  is a parameter acting on the world:
  \<^item> \<open>Adam lr\<close> is \<^verbatim>\<open>torch.optim.Adam(model.parameters(), lr=lr)\<close>;
  \<^item> \<open>DataLoader (dataset, batch_size, shuffle)\<close> is the construction
    \<^verbatim>\<open>DataLoader(dataset, batch_size=batch_size, shuffle=shuffle)\<close>;
  \<^item> \<open>loader_iter (dataset, batch_size, shuffle)\<close> is one pass over
    \<^verbatim>\<open>DataLoader(dataset, batch_size=batch_size, shuffle=shuffle)\<close>: the batches of the
    pass, drawn afresh (and reshuffled, when asked) at each pass. \<^verbatim>\<open>len\<close> of a loader over
    a dataset is the number of batches of a pass;
  \<^item> \<open>model_train\<close>, \<open>model_eval\<close> are \<^verbatim>\<open>model.train()\<close>, \<^verbatim>\<open>model.eval()\<close>;
    \<open>model_call X\<close> is \<^verbatim>\<open>model(X)\<close>;
  \<^item> \<open>zero_grad\<close>, \<open>optimizer_step\<close> are \<^verbatim>\<open>optimizer.zero_grad()\<close>,
    \<^verbatim>\<open>optimizer.step()\<close>; \<open>backward loss\<close> is \<^verbatim>\<open>loss.backward()\<close>;
  \<^item> \<open>no_grad_enter\<close>, \<open>no_grad_exit\<close> open and close \<^verbatim>\<open>with torch.no_grad()\<close>;
  \<^item> \<open>item loss\<close> is \<^verbatim>\<open>loss.item()\<close>, a Python float;
  \<^item> \<open>rnd\<close> rounds an exact result of float arithmetic to a double.
  The constructions of lines 46 to 50 (the model class, which is an argument of the
  function, \<open>Adam\<close> and \<open>DataLoader\<close>) can refuse their arguments: they yield the new
  world, or the exception they raise. The operations inside an epoch are taken to return.
\<close>

type_synonym ('d) loader = "'d \<times> pyval \<times> bool"

record ('w, 'd, 'x, 'y, 'p, 'l) torch =
  Adam :: "pyval \<Rightarrow> 'w \<Rightarrow> py_error + 'w"
  DataLoader :: "'d loader \<Rightarrow> 'w \<Rightarrow> py_error + 'w"
  loader_iter :: "'d loader \<Rightarrow> 'w \<Rightarrow> ('x \<times> 'y) list \<times> 'w"
  model_train :: "'w \<Rightarrow> 'w"
  model_eval :: "'w \<Rightarrow> 'w"
  model_call :: "'x \<Rightarrow> 'w \<Rightarrow> 'p \<times> 'w"
  zero_grad :: "'w \<Rightarrow> 'w"
  backward :: "'l \<Rightarrow> 'w \<Rightarrow> 'w"
  optimizer_step :: "'w \<Rightarrow> 'w"
  no_grad_enter :: "'w \<Rightarrow> 'w"
  no_grad_exit :: "'w \<Rightarrow> 'w"
  item :: "'l \<Rightarrow> 'w \<Rightarrow> pyfloat \<times> 'w"
  rnd :: "rat \<Rightarrow> pyfloat"

text \<open>
  So that the order of the calls can be stated, the state carries, beside the world, the
  trace of the calls made so far: one event for each entry into the framework and for each
  \<^verbatim>\<open>print\<close>.
\<close>

datatype event =
    Ev_print_config | Ev_model_class | Ev_Adam | Ev_DataLoader
  | Ev_train | Ev_iter | Ev_forward | Ev_criterion | Ev_zero_grad | Ev_backward | Ev_step
  | Ev_eval | Ev_no_grad_enter | Ev_no_grad_exit | Ev_item | Ev_len
  | Ev_print_loss pyfloat

record 'w state =
  world :: 'w
  trace :: "event list"

definition emit :: "event \<Rightarrow> 'w state \<Rightarrow> 'w state" where
  "emit ev s = s\<lparr>trace := trace s @ [ev]\<rparr>"

definition call :: "event \<Rightarrow> ('w \<Rightarrow> 'w) \<Rightarrow> 'w state \<Rightarrow> 'w state" where
  "call ev f s = \<lparr>world = f (world s), trace = trace s @ [ev]\<rparr>"

definition call_val :: "event \<Rightarrow> ('w \<Rightarrow> 'a \<times> 'w) \<Rightarrow> 'w state \<Rightarrow> 'a \<times> 'w state" where
  "call_val ev f s =
     (let (a, w) = f (world s) in (a, \<lparr>world = w, trace = trace s @ [ev]\<rparr>))"

text \<open>
  A call that can raise. The trace records the call in both cases; when it raises, the
  world is left as it was.
\<close>

definition try_call ::
  "event \<Rightarrow> ('w \<Rightarrow> py_error + 'w) \<Rightarrow> 'w state \<Rightarrow> (py_error + unit) \<times> 'w state" where
  "try_call ev f s =
     (case f (world s) of
        Inl e \<Rightarrow> (Inl e, emit ev s)
      | Inr w \<Rightarrow> (Inr (), \<lparr>world = w, trace = trace s @ [ev]\<rparr>))"

section \<open>train_and_evaluate\<close>

text \<open>The body of the training loop, lines 56 to 60, for one mini-batch.\<close>

definition train_batch ::
  "('w, 'd, 'x, 'y, 'p, 'l) torch \<Rightarrow> ('p \<Rightarrow> 'y \<Rightarrow> 'w \<Rightarrow> 'l \<times> 'w) \<Rightarrow> 'x \<Rightarrow> 'y \<Rightarrow>
   'w state \<Rightarrow> 'w state" where
  "train_batch T criterion X_batch y_batch s0 =
     (let (predictions, s1) = call_val Ev_forward (model_call T X_batch) s0;
          (loss, s2) = call_val Ev_criterion (criterion predictions y_batch) s1;
          s3 = call Ev_zero_grad (zero_grad T) s2;
          s4 = call Ev_backward (backward T loss) s3;
          s5 = call Ev_step (optimizer_step T) s4
      in s5)"

text \<open>The loop of line 55 over the batches of one pass of the training loader.\<close>

fun train_loop ::
  "('w, 'd, 'x, 'y, 'p, 'l) torch \<Rightarrow> ('p \<Rightarrow> 'y \<Rightarrow> 'w \<Rightarrow> 'l \<times> 'w) \<Rightarrow> ('x \<times> 'y) list \<Rightarrow>
   'w state \<Rightarrow> 'w state" where
  "train_loop T criterion [] s = s"
| "train_loop T criterion ((X_batch, y_batch) # rest) s =
     train_loop T criterion rest (train_batch T criterion X_batch y_batch s)"

text \<open>
  The loop of lines 65 to 68 over the batches of one pass of the validation loader, with
  the running sum \<^verbatim>\<open>validate_loss\<close>.
\<close>

fun validate_loop ::
  "('w, 'd, 'x, 'y, 'p, 'l) torch \<Rightarrow> ('p \<Rightarrow> 'y \<Rightarrow> 'w \<Rightarrow> 'l \<times> 'w) \<Rightarrow> ('x \<times> 'y) list \<Rightarrow>
   pyfloat \<Rightarrow> 'w state \<Rightarrow> pyfloat \<times> 'w state" where
  "validate_loop T criterion [] validate_loss s = (validate_loss, s)"
| "validate_loop T criterion ((X_batch, y_batch) # rest) validate_loss s0 =
     (let (predictions, s1) = call_val Ev_forward (model_call T X_batch) s0;
          (loss, s2) = call_val Ev_criterion (criterion predictions y_batch) s1;
          (v, s3) = call_val Ev_item (item T loss) s2
      in validate_loop T criterion rest (float_add (rnd T) validate_loss v) s3)"

text \<open>
  Lines 54 to 69 of one epoch: the training pass, the validation pass, and the division of
  the summed loss by \<^verbatim>\<open>len(validate_loader)\<close>. The outcome is the epoch's mean validation
  loss, or the ZeroDivisionError of line 69.
\<close>

definition epoch_validate_loss ::
  "('w, 'd, 'x, 'y, 'p, 'l) torch \<Rightarrow> ('p \<Rightarrow> 'y \<Rightarrow> 'w \<Rightarrow> 'l \<times> 'w) \<Rightarrow> 'd loader \<Rightarrow> 'd loader \<Rightarrow>
   'w state \<Rightarrow> (py_error + pyfloat) \<times> 'w state" where
  "epoch_validate_loss T criterion train_loader validate_loader s0 =
     (let s1 = call Ev_train (model_train T) s0;
          (train_batches, s2) = call_val Ev_iter (loader_iter T train_loader) s1;
          s3 = train_loop T criterion train_batches s2;
          s4 = call Ev_eval (model_eval T) s3;
          s5 = call Ev_no_grad_enter (no_grad_enter T) s4;
          (validate_batches, s6) = call_val Ev_iter (loader_iter T validate_loader) s5;
          (validate_loss, s7) = validate_loop T criterion validate_batches (Fin 0) s6;
          s8 = call Ev_no_grad_exit (no_grad_exit T) s7;
          s9 = emit Ev_len s8
      in (float_truediv (rnd T) validate_loss (length validate_batches), s9))"

text \<open>Lines 71 and 72: the new value of \<^verbatim>\<open>best_validate_loss\<close> after an epoch.\<close>

definition update_best :: "pyfloat \<Rightarrow> pyfloat \<Rightarrow> pyfloat" where
  "update_best best_validate_loss validate_loss =
     (if float_lt validate_loss best_validate_loss then validate_loss
      else best_validate_loss)"

text \<open>
  The loop of line 53 over \<^verbatim>\<open>range(num_epochs)\<close>, by the number of epochs still to run.
  An exception in an epoch ends the loop.
\<close>

fun epoch_loop ::
  "('w, 'd, 'x, 'y, 'p, 'l) torch \<Rightarrow> ('p \<Rightarrow> 'y \<Rightarrow> 'w \<Rightarrow> 'l \<times> 'w) \<Rightarrow> 'd loader \<Rightarrow> 'd loader \<Rightarrow>
   nat \<Rightarrow> pyfloat \<Rightarrow> 'w state \<Rightarrow> (py_error + pyfloat) \<times> 'w state" where
  "epoch_loop T criterion train_loader validate_loader 0 best_validate_loss s =
     (Inr best_validate_loss, s)"
| "epoch_loop T criterion train_loader validate_loader (Suc n) best_validate_loss s =
     (case epoch_validate_loss T criterion train_loader validate_loader s of
        (Inl e, s') \<Rightarrow> (Inl e, s')
      | (Inr validate_loss, s') \<Rightarrow>
          epoch_loop T criterion train_loader validate_loader n
            (update_best best_validate_loss validate_loss) s')"

text \<open>
  Lines 39 to 50: the first \<^verbatim>\<open>print\<close>, the four subscripts of \<^verbatim>\<open>params\<close>, the model,
  the optimizer and the two loaders. The outcome is the pair of loaders, or the first
  exception: the KeyError of a subscript, or what a construction raises.
\<close>

definition prologue ::
  "('w, 'd, 'x, 'y, 'p, 'l) torch \<Rightarrow> config \<Rightarrow>
   (int \<Rightarrow> pyval \<Rightarrow> pyval \<Rightarrow> 'w \<Rightarrow> py_error + 'w) \<Rightarrow> int \<Rightarrow>
   'd \<Rightarrow> 'd \<Rightarrow> 'w state \<Rightarrow> (py_error + 'd loader \<times> 'd loader) \<times> 'w state" where
  "prologue T params model_class input_dim train_dataset validate_dataset s0 =
     (let s1 = emit Ev_print_config s0 in
      case subscript params ''hidden_layers'' of
        Inl e \<Rightarrow> (Inl e, s1)
      | Inr hidden_layers \<Rightarrow>
     (case subscript params ''dropout_rate'' of
        Inl e \<Rightarrow> (Inl e, s1)
      | Inr dropout_rate \<Rightarrow>
     (case subscript params ''learning_rate'' of
        Inl e \<Rightarrow> (Inl e, s1)
      | Inr learning_rate \<Rightarrow>
     (case subscript params ''batch_size'' of
        Inl e \<Rightarrow> (Inl e, s1)
      | Inr batch_size \<Rightarrow>
     (case try_call Ev_model_class (model_class input_dim hidden_layers dropout_rate) s1 of
        (Inl e, s2) \<Rightarrow> (Inl e, s2)
      | (Inr u, s2) \<Rightarrow>
     (case try_call Ev_Adam (Adam T learning_rate) s2 of
        (Inl e, s3) \<Rightarrow> (Inl e, s3)
      | (Inr u, s3) \<Rightarrow>
     (let train_loader = (train_dataset, batch_size, True) in
      case try_call Ev_DataLoader (DataLoader T train_loader) s3 of
        (Inl e, s4) \<Rightarrow> (Inl e, s4)
      | (Inr u, s4) \<Rightarrow>
     (let validate_loader = (validate_dataset, batch_size, False) in
      case try_call Ev_DataLoader (DataLoader T validate_loader) s4 of
        (Inl e, s5) \<Rightarrow> (Inl e, s5)
      | (Inr u, s5) \<Rightarrow> (Inr (train_loader, validate_loader), s5)))))))))"

text \<open>
  The whole function. \<^verbatim>\<open>range(num_epochs)\<close> has \<open>nat num_epochs\<close> elements: none when
  \<^verbatim>\<open>num_epochs\<close> is zero or negative. The result is the pair of line 75, or the exception
  that ended the call, with the state as the call leaves it.
\<close>

definition train_and_evaluate ::
  "('w, 'd, 'x, 'y, 'p, 'l) torch \<Rightarrow> config \<Rightarrow>
   (int \<Rightarrow> pyval \<Rightarrow> pyval \<Rightarrow> 'w \<Rightarrow> py_error + 'w) \<Rightarrow> int \<Rightarrow>
   'd \<Rightarrow> 'd \<Rightarrow> ('p \<Rightarrow> 'y \<Rightarrow> 'w \<Rightarrow> 'l \<times> 'w) \<Rightarrow> int \<Rightarrow>
   'w state \<Rightarrow> (py_error + pyfloat \<times> config) \<times> 'w state" where
  "train_and_evaluate T params model_class input_dim train_dataset validate_dataset
       criterion num_epochs s0 =
     (case prologue T params model_class input_dim train_dataset validate_dataset s0 of
        (Inl e, s1) \<Rightarrow> (Inl e, s1)
      | (Inr (train_loader, validate_loader), s1) \<Rightarrow>
     (case epoch_loop T criterion train_loader validate_loader (nat num_epochs) PInf s1 of
        (Inl e, s2) \<Rightarrow> (Inl e, s2)
      | (Inr best_validate_loss, s2) \<Rightarrow>
          (Inr (best_validate_loss, params), emit (Ev_print_loss best_validate_loss) s2)))"

text \<open>
  The mean validation losses of the epochs of a run, in epoch order: what line 69 leaves
  in \<^verbatim>\<open>validate_loss\<close> in each of \<open>n\<close> epochs started in state \<open>s\<close>.
\<close>

fun epoch_means ::
  "('w, 'd, 'x, 'y, 'p, 'l) torch \<Rightarrow> ('p \<Rightarrow> 'y \<Rightarrow> 'w \<Rightarrow> 'l \<times> 'w) \<Rightarrow> 'd loader \<Rightarrow> 'd loader \<Rightarrow>
   nat \<Rightarrow> 'w state \<Rightarrow> py_error + pyfloat list" where
  "epoch_means T criterion train_loader validate_loader 0 s = Inr []"
| "epoch_means T criterion train_loader validate_loader (Suc n) s =
     (case epoch_validate_loss T criterion train_loader validate_loader s of
        (Inl e, s') \<Rightarrow> Inl e
      | (Inr validate_loss, s') \<Rightarrow>
          (case epoch_means T criterion train_loader validate_loader n s' of
             Inl e \<Rightarrow> Inl e
           | Inr rest \<Rightarrow> Inr (validate_loss # rest)))"

text \<open>The same for a whole call of \<^verbatim>\<open>train_and_evaluate\<close>, prologue included.\<close>

definition validation_means ::
  "('w, 'd, 'x, 'y, 'p, 'l) torch \<Rightarrow> config \<Rightarrow>
   (int \<Rightarrow> pyval \<Rightarrow> pyval \<Rightarrow> 'w \<Rightarrow> py_error + 'w) \<Rightarrow> int \<Rightarrow>
   'd \<Rightarrow> 'd \<Rightarrow> ('p \<Rightarrow> 'y \<Rightarrow> 'w \<Rightarrow> 'l \<times> 'w) \<Rightarrow> int \<Rightarrow> 'w state \<Rightarrow> py_error + pyfloat list" where
  "validation_means T params model_class input_dim train_dataset validate_dataset
       criterion num_epochs s0 =
     (case prologue T params model_class input_dim train_dataset validate_dataset s0 of
        (Inl e, s1) \<Rightarrow> Inl e
      | (Inr (train_loader, validate_loader), s1) \<Rightarrow>
          epoch_means T criterion train_loader validate_loader (nat num_epochs) s1)"

section \<open>Concrete inputs\<close>

text \<open>
  A generator that always delivers zero, one that delivers 0, 1, 2, ... in turn, a
  parameter space with two candidates for every key, and one whose only key is bound to an
  empty list.
\<close>

definition zero_rng :: rng where
  "zero_rng = (\<lambda>i. 0)"

definition counting_rng :: rng where
  "counting_rng = (\<lambda>i. i)"

definition two_space :: param_space where
  "two_space =
     [''hidden_layers'' \<mapsto> [VList [VInt 16], VList [VInt 32, VInt 16]],
      ''dropout_rate'' \<mapsto> [VFloat (Fin 0), VFloat (Fin (1 / 2))],
      ''learning_rate'' \<mapsto> [VFloat lit_0_01, VFloat (Fin (1 / 8))],
      ''batch_size'' \<mapsto> [VInt 4, VInt 8]]"

definition empty_first_space :: param_space where
  "empty_first_space = [''hidden_layers'' \<mapsto> []]"

text \<open>
  A parameter space without \<^verbatim>\<open>dropout_rate\<close> in which a key read later is bound to an
  empty list, and one in which a key read earlier is.
\<close>

definition empty_later_space :: param_space where
  "empty_later_space =
     [''hidden_layers'' \<mapsto> [VList [VInt 16]],
      ''learning_rate'' \<mapsto> [],
      ''batch_size'' \<mapsto> [VInt 4]]"

definition empty_earlier_space :: param_space where
  "empty_earlier_space =
     [''hidden_layers'' \<mapsto> [],
      ''learning_rate'' \<mapsto> [VFloat lit_0_01],
      ''batch_size'' \<mapsto> [VInt 4]]"

text \<open>A configuration without any key, and one with the batch size 0.\<close>

definition empty_config :: config where
  "empty_config = Map.empty"

definition zero_batch_config :: config where
  "zero_batch_config =
     [''hidden_layers'' \<mapsto> VList [VInt 16],
      ''dropout_rate'' \<mapsto> VFloat (Fin 0),
      ''learning_rate'' \<mapsto> VFloat lit_0_01,
      ''batch_size'' \<mapsto> VInt 0]"

text \<open>
  A small framework on which the functions can be run: a linear model \<open>weight * x\<close>
  with one weight, the squared error as loss, gradient descent with a fixed step, exact
  arithmetic, and loaders that deliver every sample of a dataset as a batch of its own. A
  prediction carries its input and a loss carries its derivative in the weight, as the
  autograd graph does. As in PyTorch, the construction of a loader raises ValueError when
  the batch size is not a positive int and when an empty dataset is to be shuffled.
\<close>

record toy_world =
  weight :: rat
  grad :: rat

definition toy_torch ::
  "(toy_world, (rat \<times> rat) list, rat, rat, rat \<times> rat, rat \<times> rat) torch" where
  "toy_torch =
     \<lparr>Adam = (\<lambda>lr w. Inr w),
      DataLoader = (\<lambda>(dataset, batch_size, shuffle) w.
        if (case batch_size of VInt n \<Rightarrow> n \<le> 0 | VFloat x \<Rightarrow> True | VList xs \<Rightarrow> True)
        then Inl ValueError
        else if shuffle \<and> dataset = [] then Inl ValueError
        else Inr w),
      loader_iter = (\<lambda>(dataset, batch_size, shuffle) w. (dataset, w)),
      model_train = (\<lambda>w. w),
      model_eval = (\<lambda>w. w),
      model_call = (\<lambda>X w. ((weight w * X, X), w)),
      zero_grad = (\<lambda>w. w\<lparr>grad := 0\<rparr>),
      backward = (\<lambda>loss w. w\<lparr>grad := grad w + snd loss\<rparr>),
      optimizer_step = (\<lambda>w. w\<lparr>weight := weight w - 3 / 4 * grad w\<rparr>),
      no_grad_enter = (\<lambda>w. w),
      no_grad_exit = (\<lambda>w. w),
      item = (\<lambda>loss w. (Fin (fst loss), w)),
      rnd = Fin\<rparr>"

text \<open>The same framework with a loss that is always NaN.\<close>

definition nan_torch ::
  "(toy_world, (rat \<times> rat) list, rat, rat, rat \<times> rat, rat \<times> rat) torch" where
  "nan_torch = toy_torch\<lparr>item := (\<lambda>loss w. (NaN, w))\<rparr>"

definition toy_model_class ::
  "int \<Rightarrow> pyval \<Rightarrow> pyval \<Rightarrow> toy_world \<Rightarrow> py_error + toy_world" where
  "toy_model_class input_dim hidden_layers dropout_rate w = Inr \<lparr>weight = 0, grad = 0\<rparr>"

definition toy_criterion :: "rat \<times> rat \<Rightarrow> rat \<Rightarrow> toy_world \<Rightarrow> (rat \<times> rat) \<times> toy_world" where
  "toy_criterion predictions y w =
     (((fst predictions - y)\<^sup>2, 2 * (fst predictions - y) * snd predictions), w)"

definition toy_start :: "toy_world state" where
  "toy_start = \<lparr>world = \<lparr>weight = 5, grad = 7\<rparr>, trace = []\<rparr>"

definition toy_train :: "(rat \<times> rat) list" where
  "toy_train = [(1, 2)]"

definition toy_validate :: "(rat \<times> rat) list" where
  "toy_validate = [(1, 3 / 2), (2, 3)]"

section \<open>Properties of the sampler\<close>

lemma choice_at_missing:
  "param_space k = None \<Longrightarrow> choice_at param_space k r = (Inl (KeyError k), r)"
  by (simp add: choice_at_def subscript_def)

lemma choice_at_empty:
  "param_space k = Some [] \<Longrightarrow> choice_at param_space k r = (Inl IndexError, r)"
  by (simp add: choice_at_def subscript_def choice_def)

lemma choice_at_member:
  "param_space k = Some seq \<Longrightarrow> seq \<noteq> [] \<Longrightarrow>
   choice_at param_space k r = (Inr (seq ! (r 0 mod length seq)), \<lambda>i. r (Suc i))"
  by (simp add: choice_at_def subscript_def choice_def randbelow_def)

lemma choice_at_cases:
  "choice_at param_space k r =
     (case param_space k of
        None \<Rightarrow> (Inl (KeyError k), r)
      | Some seq \<Rightarrow>
          if seq = [] then (Inl IndexError, r)
          else (Inr (seq ! (r 0 mod length seq)), \<lambda>i. r (Suc i)))"
  by (simp add: choice_at_def subscript_def choice_def randbelow_def split: option.splits)

section \<open>Properties of the trainer\<close>

subsection \<open>trace and world of the framework calls\<close>

lemma trace_emit [simp]: "trace (emit ev s) = trace s @ [ev]"
  by (simp add: emit_def)

lemma world_emit [simp]: "world (emit ev s) = world s"
  by (simp add: emit_def)

lemma trace_call [simp]: "trace (call ev f s) = trace s @ [ev]"
  by (simp add: call_def)

lemma world_call [simp]: "world (call ev f s) = f (world s)"
  by (simp add: call_def)

lemma trace_call_val [simp]: "trace (snd (call_val ev f s)) = trace s @ [ev]"
  by (simp add: call_val_def split: prod.splits)

lemma world_call_val [simp]: "world (snd (call_val ev f s)) = snd (f (world s))"
  by (simp add: call_val_def split: prod.splits)

lemma fst_call_val [simp]: "fst (call_val ev f s) = fst (f (world s))"
  by (simp add: call_val_def split: prod.splits)

lemma trace_train_batch:
  "trace (train_batch T criterion X_batch y_batch s) =
     trace s @ [Ev_forward, Ev_criterion, Ev_zero_grad, Ev_backward, Ev_step]"
  by (simp add: train_batch_def call_val_def call_def split: prod.splits)

lemma world_train_batch:
  "world (train_batch T criterion X_batch y_batch s) =
     (let (predictions, w1) = model_call T X_batch (world s);
          (loss, w2) = criterion predictions y_batch w1
      in optimizer_step T (backward T loss (zero_grad T w2)))"
  by (simp add: train_batch_def call_val_def call_def split: prod.splits)

lemma trace_train_loop:
  "trace (train_loop T criterion batches s) =
     trace s @ concat (replicate (length batches)
       [Ev_forward, Ev_criterion, Ev_zero_grad, Ev_backward, Ev_step])"
proof (induction batches arbitrary: s)
  case Nil
  then show ?case by simp
next
  case (Cons b batches)
  obtain X_batch y_batch where b: "b = (X_batch, y_batch)" by (cases b)
  show ?case
    by (simp add: b Cons.IH trace_train_batch)
qed

subsection \<open>the tracker\<close>

lemma update_best_cases:
  "update_best b v = (if float_lt v b then v else b)"
  by (simp add: update_best_def)

lemma float_lt_not_nan: "float_lt v b \<Longrightarrow> \<not> is_nan v"
  by (cases v) simp_all

lemma update_best_not_nan: "\<not> is_nan b \<Longrightarrow> \<not> is_nan (update_best b v)"
  by (simp add: update_best_def float_lt_not_nan)

lemma update_best_nan: "is_nan v \<Longrightarrow> update_best b v = b"
  by (cases v) (simp_all add: update_best_def)

lemma foldl_update_best_not_nan:
  "\<not> is_nan b \<Longrightarrow> \<not> is_nan (foldl update_best b ms)"
  by (induction ms arbitrary: b) (simp_all add: update_best_not_nan)

lemma foldl_update_best_all_nan:
  "\<forall>m \<in> set ms. is_nan m \<Longrightarrow> foldl update_best b ms = b"
  by (induction ms arbitrary: b) (simp_all add: update_best_nan)

lemma foldl_update_best_picks:
  "foldl update_best b ms = b \<or> foldl update_best b ms \<in> set ms"
proof (induction ms arbitrary: b)
  case Nil
  then show ?case by simp
next
  case (Cons m ms)
  from Cons.IH [of "update_best b m"] show ?case
    by (auto simp add: update_best_def split: if_splits)
qed

lemma float_le_trans:
  "float_le a b \<Longrightarrow> float_le b c \<Longrightarrow> float_le a c"
  by (cases a; cases b; cases c) simp_all

lemma update_best_le_best:
  "is_finite b \<or> b = PInf \<Longrightarrow> float_le (update_best b v) b"
  by (cases b; cases v) (auto simp add: update_best_def)

lemma update_best_le_new:
  "is_finite b \<or> b = PInf \<Longrightarrow> is_finite v \<Longrightarrow> float_le (update_best b v) v"
  by (cases b; cases v) (auto simp add: update_best_def)

lemma update_best_keeps_shape:
  "is_finite b \<or> b = PInf \<Longrightarrow> is_finite v \<Longrightarrow> is_finite (update_best b v)"
  by (cases b; cases v) (auto simp add: update_best_def)

lemma foldl_update_best_lower:
  assumes "is_finite b \<or> b = PInf" and "\<forall>m \<in> set ms. is_finite m"
  shows "float_le (foldl update_best b ms) b
         \<and> (\<forall>m \<in> set ms. float_le (foldl update_best b ms) m)"
  using assms
proof (induction ms arbitrary: b)
  case Nil
  then show ?case by (cases b) auto
next
  case (Cons m ms)
  let ?b' = "update_best b m"
  from Cons.prems have fm: "is_finite m" and rest: "\<forall>x \<in> set ms. is_finite x"
    by simp_all
  have shape: "is_finite ?b' \<or> ?b' = PInf"
    using update_best_keeps_shape [OF Cons.prems(1) fm] by simp
  from Cons.IH [OF shape rest]
  have le: "float_le (foldl update_best ?b' ms) ?b'"
    and all: "\<forall>x \<in> set ms. float_le (foldl update_best ?b' ms) x"
    by simp_all
  have "float_le (foldl update_best ?b' ms) b"
    using le update_best_le_best [OF Cons.prems(1), of m] by (rule float_le_trans)
  moreover have "float_le (foldl update_best ?b' ms) m"
    using le update_best_le_new [OF Cons.prems(1) fm] by (rule float_le_trans)
  ultimately show ?case using all by simp
qed

lemma foldl_update_best_minimum:
  assumes "ms \<noteq> []" and "\<forall>m \<in> set ms. is_finite m"
  shows "foldl update_best PInf ms \<in> set ms
         \<and> (\<forall>m \<in> set ms. float_le (foldl update_best PInf ms) m)"
proof -
  have low: "\<forall>m \<in> set ms. float_le (foldl update_best PInf ms) m"
    using foldl_update_best_lower [of PInf ms] assms(2) by simp
  have "foldl update_best PInf ms \<noteq> PInf"
  proof
    assume eq: "foldl update_best PInf ms = PInf"
    from assms(1) obtain m where m: "m \<in> set ms" by (cases ms) auto
    with low eq have "float_le PInf m" by auto
    moreover from m assms(2) have "is_finite m" by simp
    ultimately show False by (cases m) simp_all
  qed
  with foldl_update_best_picks [of PInf ms] low show ?thesis by simp
qed

subsection \<open>the epoch loop\<close>

lemma epoch_means_length:
  "epoch_means T criterion train_loader validate_loader n s = Inr ms \<Longrightarrow> length ms = n"
  by (induction n arbitrary: s ms) (auto split: prod.splits sum.splits)

lemma epoch_loop_means:
  "epoch_means T criterion train_loader validate_loader n s = Inr ms \<Longrightarrow>
   \<exists>s'. epoch_loop T criterion train_loader validate_loader n best s =
           (Inr (foldl update_best best ms), s')"
proof (induction n arbitrary: s ms best)
  case 0
  then show ?case by simp
next
  case (Suc n)
  then show ?case
    by (auto split: prod.splits sum.splits)
qed

lemma train_and_evaluate_means:
  assumes "validation_means T params model_class input_dim train_dataset validate_dataset
             criterion num_epochs s = Inr ms"
  shows "\<exists>s'. train_and_evaluate T params model_class input_dim train_dataset
                 validate_dataset criterion num_epochs s =
               (Inr (foldl update_best PInf ms, params), s')"
    and "length ms = nat num_epochs"
proof -
  from assms obtain train_loader validate_loader s1 where
    p: "prologue T params model_class input_dim train_dataset validate_dataset s =
          (Inr (train_loader, validate_loader), s1)"
    and m: "epoch_means T criterion train_loader validate_loader (nat num_epochs) s1 = Inr ms"
    by (auto simp add: validation_means_def split: prod.splits sum.splits)
  from epoch_loop_means [OF m, of PInf] obtain s2 where
    "epoch_loop T criterion train_loader validate_loader (nat num_epochs) PInf s1 =
       (Inr (foldl update_best PInf ms), s2)" by blast
  with p show "\<exists>s'. train_and_evaluate T params model_class input_dim train_dataset
                 validate_dataset criterion num_epochs s =
               (Inr (foldl update_best PInf ms, params), s')"
    by (simp add: train_and_evaluate_def)
  from epoch_means_length [OF m] show "length ms = nat num_epochs" .
qed

lemma prologue_ok:
  assumes "params ''hidden_layers'' = Some hidden_layers"
    and "params ''dropout_rate'' = Some dropout_rate"
    and "params ''learning_rate'' = Some learning_rate"
    and "params ''batch_size'' = Some batch_size"
    and "model_class input_dim hidden_layers dropout_rate (world s) = Inr w1"
    and "Adam T learning_rate w1 = Inr w2"
    and "DataLoader T (train_dataset, batch_size, True) w2 = Inr w3"
    and "DataLoader T (validate_dataset, batch_size, False) w3 = Inr w4"
  shows "prologue T params model_class input_dim train_dataset validate_dataset s =
           (Inr ((train_dataset, batch_size, True), (validate_dataset, batch_size, False)),
            \<lparr>world = w4,
             trace = trace s @
               [Ev_print_config, Ev_model_class, Ev_Adam, Ev_DataLoader, Ev_DataLoader]\<rparr>)"
  using assms by (simp add: prologue_def subscript_def try_call_def emit_def)




section \<open>The claims about sample_hyperparameters\<close>

text \<open>
  Claim C2. When each of the four keys is bound to a non-empty candidate list, the call
  returns a configuration, whatever the state \<open>r\<close> of the random source, and each of its
  four fields is a member of the candidate list of its key.
\<close>

theorem sample_member:
  assumes "param_space ''hidden_layers'' = Some hs" and "hs \<noteq> []"
    and "param_space ''dropout_rate'' = Some ds" and "ds \<noteq> []"
    and "param_space ''learning_rate'' = Some ls" and "ls \<noteq> []"
    and "param_space ''batch_size'' = Some bs" and "bs \<noteq> []"
  shows "\<exists>cfg. fst (sample_hyperparameters param_space r) = Inr cfg
           \<and> dom cfg = set required_keys
           \<and> (\<exists>v \<in> set hs. cfg ''hidden_layers'' = Some v)
           \<and> (\<exists>v \<in> set ds. cfg ''dropout_rate'' = Some v)
           \<and> (\<exists>v \<in> set ls. cfg ''learning_rate'' = Some v)
           \<and> (\<exists>v \<in> set bs. cfg ''batch_size'' = Some v)"
  using assms
  by (auto simp add: sample_hyperparameters_def choice_at_member required_keys_def)

theorem sample_member_witness:
  "two_space ''hidden_layers'' = Some [VList [VInt 16], VList [VInt 32, VInt 16]]
   \<and> two_space ''dropout_rate'' = Some [VFloat (Fin 0), VFloat (Fin (1 / 2))]
   \<and> two_space ''learning_rate'' = Some [VFloat lit_0_01, VFloat (Fin (1 / 8))]
   \<and> two_space ''batch_size'' = Some [VInt 4, VInt 8]
   \<and> (\<exists>cfg. fst (sample_hyperparameters two_space counting_rng) = Inr cfg
         \<and> dom cfg = set required_keys
         \<and> (\<exists>v \<in> set [VList [VInt 16], VList [VInt 32, VInt 16]].
               cfg ''hidden_layers'' = Some v)
         \<and> (\<exists>v \<in> set [VFloat (Fin 0), VFloat (Fin (1 / 2))]. cfg ''dropout_rate'' = Some v)
         \<and> (\<exists>v \<in> set [VFloat lit_0_01, VFloat (Fin (1 / 8))].
               cfg ''learning_rate'' = Some v)
         \<and> (\<exists>v \<in> set [VInt 4, VInt 8]. cfg ''batch_size'' = Some v))"
proof -
  have h: "two_space ''hidden_layers'' = Some [VList [VInt 16], VList [VInt 32, VInt 16]]"
    and d: "two_space ''dropout_rate'' = Some [VFloat (Fin 0), VFloat (Fin (1 / 2))]"
    and l: "two_space ''learning_rate'' = Some [VFloat lit_0_01, VFloat (Fin (1 / 8))]"
    and b: "two_space ''batch_size'' = Some [VInt 4, VInt 8]"
    by (simp_all add: two_space_def)
  from sample_member [OF h _ d _ l _ b, of counting_rng] h d l b show ?thesis
    by simp
qed

text \<open>
  Claim C5, as amended. When at least one of the four keys is missing the call fails: it
  returns no configuration. The failure is the KeyError of the first missing key, in the
  order in which the keys are read, when none of the keys read before it is bound to an
  empty list; otherwise it is the IndexError that \<^verbatim>\<open>random.choice\<close> raises on the first
  empty list.
\<close>

theorem sample_missing_key:
  assumes "\<exists>k \<in> set required_keys. param_space k = None"
  shows "\<exists>k. find (\<lambda>k. param_space k = None) required_keys = Some k
           \<and> fst (sample_hyperparameters param_space r) =
               (if list_all (\<lambda>k'. param_space k' \<noteq> Some [])
                     (takeWhile (\<lambda>k'. param_space k' \<noteq> None) required_keys)
                then Inl (KeyError k) else Inl IndexError)"
proof (cases "param_space ''hidden_layers''")
  case None
  then show ?thesis
    by (simp add: sample_hyperparameters_def choice_at_cases required_keys_def)
next
  case h: (Some hs)
  show ?thesis
  proof (cases "hs = []")
    case True
    with h assms show ?thesis
      by (auto simp add: sample_hyperparameters_def choice_at_cases required_keys_def)
  next
    case hs: False
    show ?thesis
    proof (cases "param_space ''dropout_rate''")
      case None
      with h hs show ?thesis
        by (simp add: sample_hyperparameters_def choice_at_cases required_keys_def)
    next
      case d: (Some ds)
      show ?thesis
      proof (cases "ds = []")
        case True
        with h hs d assms show ?thesis
          by (auto simp add: sample_hyperparameters_def choice_at_cases required_keys_def)
      next
        case ds: False
        show ?thesis
        proof (cases "param_space ''learning_rate''")
          case None
          with h hs d ds show ?thesis
            by (simp add: sample_hyperparameters_def choice_at_cases required_keys_def)
        next
          case l: (Some ls)
          from assms h d l have b: "param_space ''batch_size'' = None"
            by (auto simp add: required_keys_def)
          show ?thesis
          proof (cases "ls = []")
            case True
            with h hs d ds l b show ?thesis
              by (simp add: sample_hyperparameters_def choice_at_cases required_keys_def)
          next
            case False
            with h hs d ds l b show ?thesis
              by (simp add: sample_hyperparameters_def choice_at_cases required_keys_def)
          qed
        qed
      qed
    qed
  qed
qed

theorem sample_missing_key_witness:
  "empty_later_space ''dropout_rate'' = None
   \<and> empty_later_space ''learning_rate'' = Some []
   \<and> fst (sample_hyperparameters empty_later_space zero_rng) = Inl (KeyError ''dropout_rate'')
   \<and> empty_earlier_space ''dropout_rate'' = None
   \<and> empty_earlier_space ''hidden_layers'' = Some []
   \<and> fst (sample_hyperparameters empty_earlier_space zero_rng) = Inl IndexError"
proof -
  have later: "empty_later_space ''hidden_layers'' = Some [VList [VInt 16]]"
    "empty_later_space ''dropout_rate'' = None"
    "empty_later_space ''learning_rate'' = Some []"
    "empty_later_space ''batch_size'' = Some [VInt 4]"
    by (simp_all add: empty_later_space_def)
  have earlier: "empty_earlier_space ''hidden_layers'' = Some []"
    "empty_earlier_space ''dropout_rate'' = None"
    "empty_earlier_space ''learning_rate'' = Some [VFloat lit_0_01]"
    "empty_earlier_space ''batch_size'' = Some [VInt 4]"
    by (simp_all add: empty_earlier_space_def)
  have a: "\<exists>k \<in> set required_keys. empty_later_space k = None"
    by (simp add: required_keys_def later)
  have b: "\<exists>k \<in> set required_keys. empty_earlier_space k = None"
    by (simp add: required_keys_def earlier)
  from sample_missing_key [OF a, of zero_rng]
  have "fst (sample_hyperparameters empty_later_space zero_rng) =
          Inl (KeyError ''dropout_rate'')"
    by (simp add: required_keys_def later)
  moreover from sample_missing_key [OF b, of zero_rng]
  have "fst (sample_hyperparameters empty_earlier_space zero_rng) = Inl IndexError"
    by (simp add: required_keys_def earlier)
  ultimately show ?thesis by (simp add: later earlier)
qed

text \<open>
  Claim C5 as it is written fails: in \<^verbatim>\<open>{'hidden_layers': []}\<close> the key
  \<^verbatim>\<open>dropout_rate\<close> is missing, and the call ends with the IndexError that
  \<^verbatim>\<open>random.choice\<close> raises on the empty list, before any missing key is read.
\<close>

theorem sample_missing_key_counterexample:
  "empty_first_space ''dropout_rate'' = None
   \<and> fst (sample_hyperparameters empty_first_space zero_rng) = Inl IndexError"
  by (simp add: empty_first_space_def sample_hyperparameters_def choice_at_empty)

text \<open>
  Claim C7. Whatever the parameter space and the state of the random source, and whether
  the call returns or raises, the dict is after the call what it was before.
\<close>

theorem sample_frame:
  "fst (snd (sample_hyperparameters param_space r)) = param_space"
  by (simp add: sample_hyperparameters_def split: prod.splits sum.splits)

theorem sample_frame_witness:
  "fst (snd (sample_hyperparameters two_space counting_rng)) = two_space
   \<and> fst (snd (sample_hyperparameters empty_first_space zero_rng)) = empty_first_space"
  using sample_frame [of two_space counting_rng] sample_frame [of empty_first_space zero_rng]
  by simp

text \<open>
  Claim C8. On the parameter space whose four candidate lists are singletons, the call
  returns the configuration made of the four candidates, for every state \<open>r\<close> of the
  random source.
\<close>

theorem sample_single:
  "fst (sample_hyperparameters single_space r) = Inr single_config"
  by (simp add: sample_hyperparameters_def single_space_def single_config_def
      choice_at_def subscript_def choice_def randbelow_def)

theorem sample_single_witness:
  "fst (sample_hyperparameters single_space counting_rng) = Inr single_config"
  using sample_single [of counting_rng] by simp

section \<open>The claims about train_and_evaluate\<close>

subsection \<open>runs of the small framework\<close>

lemma toy_means:
  "validation_means toy_torch single_config toy_model_class 1 toy_train toy_validate
     toy_criterion 3 toy_start = Inr [Fin (45 / 8), Fin 0, Fin (45 / 32)]"
  by code_simp

lemma nan_means:
  "validation_means nan_torch single_config toy_model_class 1 toy_train toy_validate
     toy_criterion 2 toy_start = Inr [NaN, NaN]"
  by code_simp

lemma toy_run:
  "train_and_evaluate toy_torch single_config toy_model_class 1 toy_train toy_validate
     toy_criterion 1 toy_start =
   (Inr (Fin (45 / 8), single_config),
    \<lparr>world = \<lparr>weight = 3, grad = - 4\<rparr>,
     trace = [Ev_print_config, Ev_model_class, Ev_Adam, Ev_DataLoader, Ev_DataLoader,
       Ev_train, Ev_iter, Ev_forward, Ev_criterion, Ev_zero_grad, Ev_backward, Ev_step,
       Ev_eval, Ev_no_grad_enter, Ev_iter, Ev_forward, Ev_criterion, Ev_item,
       Ev_forward, Ev_criterion, Ev_item, Ev_no_grad_exit, Ev_len,
       Ev_print_loss (Fin (45 / 8))]\<rparr>)"
  by (simp add: train_and_evaluate_def prologue_def subscript_def single_config_def
      epoch_validate_loss_def train_batch_def call_def call_val_def emit_def try_call_def
      toy_torch_def toy_model_class_def toy_criterion_def toy_start_def toy_train_def
      toy_validate_def update_best_def power2_eq_square)

lemma single_config_keys:
  "single_config ''hidden_layers'' = Some (VList [VInt 16])"
  "single_config ''dropout_rate'' = Some (VFloat (Fin 0))"
  "single_config ''learning_rate'' = Some (VFloat lit_0_01)"
  "single_config ''batch_size'' = Some (VInt 4)"
  by (simp_all add: single_config_def)

lemma toy_setup:
  "toy_model_class 1 (VList [VInt 16]) (VFloat (Fin 0)) (world toy_start) =
     Inr \<lparr>weight = 0, grad = 0\<rparr>"
  "Adam toy_torch (VFloat lit_0_01) \<lparr>weight = 0, grad = 0\<rparr> = Inr \<lparr>weight = 0, grad = 0\<rparr>"
  "DataLoader toy_torch (toy_train, VInt 4, True) \<lparr>weight = 0, grad = 0\<rparr> =
     Inr \<lparr>weight = 0, grad = 0\<rparr>"
  "DataLoader toy_torch (toy_validate, VInt 4, False) \<lparr>weight = 0, grad = 0\<rparr> =
     Inr \<lparr>weight = 0, grad = 0\<rparr>"
  "DataLoader toy_torch ([], VInt 4, False) \<lparr>weight = 0, grad = 0\<rparr> =
     Inr \<lparr>weight = 0, grad = 0\<rparr>"
  by (simp_all add: toy_model_class_def toy_torch_def toy_train_def toy_validate_def)

subsection \<open>the claims\<close>

text \<open>
  Claim C1. In a call with \<open>num_epochs \<ge> 1\<close> whose epochs have the mean validation
  losses \<open>ms\<close>, all of them finite, the call returns; the best loss it returns is what the
  tracker, started at positive infinity, makes of \<open>ms\<close>; it is one of the means and
  it is less than or equal to each of them, so it is their minimum; and with
  \<open>num_epochs = 1\<close> it is the mean of the only epoch.
\<close>

theorem best_loss_is_minimum:
  assumes "1 \<le> num_epochs"
    and "validation_means T params model_class input_dim train_dataset validate_dataset
           criterion num_epochs s = Inr ms"
    and "\<forall>m \<in> set ms. is_finite m"
  shows "\<exists>best s'.
           train_and_evaluate T params model_class input_dim train_dataset validate_dataset
             criterion num_epochs s = (Inr (best, params), s')
         \<and> best = foldl update_best PInf ms
         \<and> length ms = nat num_epochs
         \<and> best \<in> set ms
         \<and> (\<forall>m \<in> set ms. float_le best m)
         \<and> (num_epochs = 1 \<longrightarrow> ms = [best])"
proof -
  let ?best = "foldl update_best PInf ms"
  from train_and_evaluate_means [OF assms(2)] obtain s' where
    run: "train_and_evaluate T params model_class input_dim train_dataset validate_dataset
            criterion num_epochs s = (Inr (?best, params), s')"
    and len: "length ms = nat num_epochs" by blast
  from len assms(1) have ne: "ms \<noteq> []" by auto
  from foldl_update_best_minimum [OF ne assms(3)]
  have mem: "?best \<in> set ms" and low: "\<forall>m \<in> set ms. float_le ?best m" by simp_all
  have one: "ms = [?best]" if "num_epochs = 1"
  proof -
    from that len have "length ms = 1" by simp
    then obtain m where "ms = [m]" by (cases ms) auto
    with mem show ?thesis by simp
  qed
  from run len mem low one show ?thesis by blast
qed

theorem best_loss_is_minimum_witness:
  "validation_means toy_torch single_config toy_model_class 1 toy_train toy_validate
     toy_criterion 3 toy_start = Inr [Fin (45 / 8), Fin 0, Fin (45 / 32)]
   \<and> list_all is_finite [Fin (45 / 8), Fin 0, Fin (45 / 32)]
   \<and> fst (train_and_evaluate toy_torch single_config toy_model_class 1 toy_train
        toy_validate toy_criterion 3 toy_start) = Inr (Fin 0, single_config)"
proof -
  have fin: "\<forall>m \<in> set [Fin (45 / 8), Fin 0, Fin (45 / 32)]. is_finite m" by simp
  have "foldl update_best PInf [Fin (45 / 8), Fin 0, Fin (45 / 32)] = Fin 0"
    by (simp add: update_best_def)
  with best_loss_is_minimum [OF _ toy_means fin]
  have "fst (train_and_evaluate toy_torch single_config toy_model_class 1 toy_train
          toy_validate toy_criterion 3 toy_start) = Inr (Fin 0, single_config)"
    by auto
  with toy_means show ?thesis by simp
qed




text \<open>
  Claim C4, as amended. For one mini-batch of the training phase the calls are, in this
  order: the predictions, the loss, the reset of the accumulated gradients, the backward
  propagation, one optimizer step. The world after the batch is the composition of the
  five operations in that order, and a training phase is that sequence once for each batch
  of the pass.
\<close>

theorem training_step_order:
  "trace (train_batch T criterion X_batch y_batch s) =
     trace s @ [Ev_forward, Ev_criterion, Ev_zero_grad, Ev_backward, Ev_step]
   \<and> world (train_batch T criterion X_batch y_batch s) =
       (let (predictions, w1) = model_call T X_batch (world s);
            (loss, w2) = criterion predictions y_batch w1
        in optimizer_step T (backward T loss (zero_grad T w2)))
   \<and> trace (train_loop T criterion batches s) =
       trace s @ concat (replicate (length batches)
         [Ev_forward, Ev_criterion, Ev_zero_grad, Ev_backward, Ev_step])"
  by (simp only: trace_train_batch world_train_batch trace_train_loop)

theorem training_step_order_witness:
  "trace (train_loop toy_torch toy_criterion [(1, 2), (2, 4)] toy_start) =
     [Ev_forward, Ev_criterion, Ev_zero_grad, Ev_backward, Ev_step,
      Ev_forward, Ev_criterion, Ev_zero_grad, Ev_backward, Ev_step]"
proof -
  have "trace (train_loop toy_torch toy_criterion [(1, 2), (2, 4)] toy_start) =
          trace toy_start @ concat (replicate (length [(1::rat, 2::rat), (2, 4)])
            [Ev_forward, Ev_criterion, Ev_zero_grad, Ev_backward, Ev_step])"
    using training_step_order [of toy_torch toy_criterion 1 2 toy_start "[(1, 2), (2, 4)]"]
    by blast
  then show ?thesis by (simp add: toy_start_def numeral_2_eq_2)
qed

text \<open>
  Claim C4 as it is written fails: the gradients are reset before the backward
  propagation, not after the optimizer step. On the small framework, started with weight
  5 and a stale gradient 7, the batch \<open>(1, 2)\<close> leaves the gradient 6 of the batch in
  place, and the step has used that gradient alone (weight \<open>5 - 3 / 4 * 6\<close>).
\<close>

theorem training_step_order_counterexample:
  "train_batch toy_torch toy_criterion 1 2 toy_start =
     \<lparr>world = \<lparr>weight = 1 / 2, grad = 6\<rparr>,
      trace = [Ev_forward, Ev_criterion, Ev_zero_grad, Ev_backward, Ev_step]\<rparr>
   \<and> trace (train_batch toy_torch toy_criterion 1 2 toy_start) \<noteq>
       [Ev_forward, Ev_criterion, Ev_backward, Ev_step, Ev_zero_grad]
   \<and> grad (world (train_batch toy_torch toy_criterion 1 2 toy_start)) \<noteq> 0"
  by (simp add: train_batch_def call_def call_val_def toy_torch_def toy_criterion_def
      toy_start_def power2_eq_square)

text \<open>
  Claim C6. The configuration in the pair that a completed call returns is the
  configuration the call was given: the function reads \<^verbatim>\<open>params\<close> four times and never
  assigns to it.
\<close>

theorem config_returned_unchanged:
  assumes "train_and_evaluate T params model_class input_dim train_dataset validate_dataset
             criterion num_epochs s = (Inr (best, cfg), s')"
  shows "cfg = params"
  using assms by (auto simp add: train_and_evaluate_def split: prod.splits sum.splits)

theorem config_returned_unchanged_witness:
  "train_and_evaluate toy_torch single_config toy_model_class 1 toy_train toy_validate
     toy_criterion 1 toy_start =
   (Inr (Fin (45 / 8), single_config),
    \<lparr>world = \<lparr>weight = 3, grad = - 4\<rparr>,
     trace = [Ev_print_config, Ev_model_class, Ev_Adam, Ev_DataLoader, Ev_DataLoader,
       Ev_train, Ev_iter, Ev_forward, Ev_criterion, Ev_zero_grad, Ev_backward, Ev_step,
       Ev_eval, Ev_no_grad_enter, Ev_iter, Ev_forward, Ev_criterion, Ev_item,
       Ev_forward, Ev_criterion, Ev_item, Ev_no_grad_exit, Ev_len,
       Ev_print_loss (Fin (45 / 8))]\<rparr>)
   \<and> single_config ''hidden_layers'' = Some (VList [VInt 16])
   \<and> single_config ''dropout_rate'' = Some (VFloat (Fin 0))
   \<and> single_config ''learning_rate'' = Some (VFloat lit_0_01)
   \<and> single_config ''batch_size'' = Some (VInt 4)"
  using config_returned_unchanged [OF toy_run] toy_run single_config_keys by simp

text \<open>
  Claim C9, as amended. In a call with \<open>num_epochs \<le> 0\<close> in which \<^verbatim>\<open>params\<close> holds the
  four keys and the model, the optimizer and the two loaders are constructed without an
  exception, the epoch loop does not run: the call returns positive infinity and the
  configuration it was given, and the only calls it has made are the first \<^verbatim>\<open>print\<close>,
  the construction of the model, of the optimizer and of the two loaders, and the last
  \<^verbatim>\<open>print\<close>.
\<close>

theorem no_epochs_returns_infinity:
  assumes "params ''hidden_layers'' = Some hidden_layers"
    and "params ''dropout_rate'' = Some dropout_rate"
    and "params ''learning_rate'' = Some learning_rate"
    and "params ''batch_size'' = Some batch_size"
    and "model_class input_dim hidden_layers dropout_rate (world s) = Inr w1"
    and "Adam T learning_rate w1 = Inr w2"
    and "DataLoader T (train_dataset, batch_size, True) w2 = Inr w3"
    and "DataLoader T (validate_dataset, batch_size, False) w3 = Inr w4"
    and "num_epochs \<le> 0"
  shows "train_and_evaluate T params model_class input_dim train_dataset validate_dataset
           criterion num_epochs s =
         (Inr (PInf, params),
          \<lparr>world = w4,
           trace = trace s @
             [Ev_print_config, Ev_model_class, Ev_Adam, Ev_DataLoader, Ev_DataLoader,
              Ev_print_loss PInf]\<rparr>)"
proof -
  have "prologue T params model_class input_dim train_dataset validate_dataset s =
      (Inr ((train_dataset, batch_size, True), (validate_dataset, batch_size, False)),
       \<lparr>world = w4,
        trace = trace s @
          [Ev_print_config, Ev_model_class, Ev_Adam, Ev_DataLoader, Ev_DataLoader]\<rparr>)"
    using assms(1-8) by (rule prologue_ok)
  with assms(9) show ?thesis
    by (simp add: train_and_evaluate_def emit_def)
qed

theorem no_epochs_returns_infinity_witness:
  "train_and_evaluate toy_torch single_config toy_model_class 1 toy_train toy_validate
     toy_criterion (- 2) toy_start =
   (Inr (PInf, single_config),
    \<lparr>world = \<lparr>weight = 0, grad = 0\<rparr>,
     trace = [Ev_print_config, Ev_model_class, Ev_Adam, Ev_DataLoader, Ev_DataLoader,
       Ev_print_loss PInf]\<rparr>)"
  using no_epochs_returns_infinity
    [where T = toy_torch and params = single_config and model_class = toy_model_class
       and input_dim = 1 and train_dataset = toy_train and validate_dataset = toy_validate
       and criterion = toy_criterion and num_epochs = "- 2" and s = toy_start
       and hidden_layers = "VList [VInt 16]" and dropout_rate = "VFloat (Fin 0)"
       and learning_rate = "VFloat lit_0_01" and batch_size = "VInt 4"
       and ?w1.0 = "\<lparr>weight = 0, grad = 0\<rparr>" and ?w2.0 = "\<lparr>weight = 0, grad = 0\<rparr>"
       and ?w3.0 = "\<lparr>weight = 0, grad = 0\<rparr>" and ?w4.0 = "\<lparr>weight = 0, grad = 0\<rparr>"]
    single_config_keys toy_setup
  by (simp add: toy_start_def)

text \<open>
  Claim C9 as it is written fails: a call with \<open>num_epochs = 0\<close> returns nothing when
  \<^verbatim>\<open>params\<close> has no key (the KeyError of line 41) and when the batch size is 0 (the
  ValueError of line 49).
\<close>

theorem no_epochs_returns_infinity_counterexample:
  "fst (train_and_evaluate toy_torch empty_config toy_model_class 1 toy_train toy_validate
        toy_criterion 0 toy_start) = Inl (KeyError ''hidden_layers'')
   \<and> fst (train_and_evaluate toy_torch zero_batch_config toy_model_class 1 toy_train
        toy_validate toy_criterion 0 toy_start) = Inl ValueError"
  by (simp add: train_and_evaluate_def prologue_def subscript_def try_call_def emit_def
      empty_config_def zero_batch_config_def toy_torch_def toy_model_class_def toy_start_def
      toy_train_def)

text \<open>
  Claim C10. The tracker takes the mean of an epoch only when \<^verbatim>\<open><\<close> holds between it
  and the best so far, and a NaN leaves the tracker as it was. So the best loss that a
  completed call returns is never NaN, and it is positive infinity when the mean of every
  epoch is NaN.
\<close>

theorem nan_is_never_best:
  assumes "validation_means T params model_class input_dim train_dataset validate_dataset
             criterion num_epochs s = Inr ms"
  shows "\<exists>best s'.
           train_and_evaluate T params model_class input_dim train_dataset validate_dataset
             criterion num_epochs s = (Inr (best, params), s')
         \<and> best = foldl update_best PInf ms
         \<and> (\<forall>b v. update_best b v = (if float_lt v b then v else b))
         \<and> (\<forall>b. update_best b NaN = b)
         \<and> \<not> is_nan best
         \<and> ((\<forall>m \<in> set ms. is_nan m) \<longrightarrow> best = PInf)"
proof -
  let ?best = "foldl update_best PInf ms"
  from train_and_evaluate_means(1) [OF assms] obtain s' where
    run: "train_and_evaluate T params model_class input_dim train_dataset validate_dataset
            criterion num_epochs s = (Inr (?best, params), s')" by blast
  have "\<not> is_nan ?best" by (rule foldl_update_best_not_nan) simp
  moreover have "(\<forall>m \<in> set ms. is_nan m) \<longrightarrow> ?best = PInf"
    by (simp add: foldl_update_best_all_nan)
  moreover have "\<forall>b. update_best b NaN = b" by (simp add: update_best_nan)
  ultimately show ?thesis using run update_best_cases by blast
qed

theorem nan_is_never_best_witness:
  "validation_means nan_torch single_config toy_model_class 1 toy_train toy_validate
     toy_criterion 2 toy_start = Inr [NaN, NaN]
   \<and> list_all is_nan [NaN, NaN]
   \<and> fst (train_and_evaluate nan_torch single_config toy_model_class 1 toy_train
        toy_validate toy_criterion 2 toy_start) = Inr (PInf, single_config)"
proof -
  from nan_is_never_best [OF nan_means]
  have "fst (train_and_evaluate nan_torch single_config toy_model_class 1 toy_train
          toy_validate toy_criterion 2 toy_start) = Inr (PInf, single_config)"
    by auto
  with nan_means show ?thesis by simp
qed

end
